theory Spec2Isabelle
  imports Main "HOL-Library.Word"
begin

section \<open>SOCKS5 proxy front end: proxy/server.go\<close>

text \<open>
  The embedding follows \<^verbatim>\<open>proxy/server.go\<close>. A run of one goroutine is a function that
  threads a \<^emph>\<open>world\<close>: the fields of the \<^verbatim>\<open>handler.Request\<close> it owns and the ordered list of
  the effects it performed (reads, writes, look-ups, dials, the receive on the semaphore
  channel, the deferred close, the calls of the logging package). Everything the network
  and the packages outside \<^verbatim>\<open>server.go\<close> decide is an input, collected in the record
  \<open>env\<close>. The server as a whole (\<^verbatim>\<open>New\<close>, \<^verbatim>\<open>startHandler\<close> and the goroutines it spawns) is
  a step relation that interleaves the effects of the running goroutines.
\<close>

subsection \<open>Data\<close>

type_synonym byte = "8 word"

text \<open>A Go \<^verbatim>\<open>error\<close> value, identified by its message.\<close>

datatype error = Error string

text \<open>A \<^verbatim>\<open>net.Conn\<close>, identified by a number.\<close>

type_synonym conn = nat

text \<open>
  Modelled from the spec: the states of \<^verbatim>\<open>handler.Request\<close> (the package \<^verbatim>\<open>handler\<close> is not
  part of the sources at hand; \<^verbatim>\<open>server.go\<close> names \<^verbatim>\<open>handler.INITIALIZING\<close>, \<^verbatim>\<open>handler.ERROR\<close>
  and, in a comment, \<^verbatim>\<open>handler.NEW\<close>).
\<close>

datatype State = NEW | INITIALIZING | CONNECTED | ERROR

text \<open>
  Modelled from the spec: the fields of \<^verbatim>\<open>handler.Request\<close> that \<^verbatim>\<open>server.go\<close> sets through
  \<^verbatim>\<open>SetState\<close>, \<^verbatim>\<open>SetOutboundIP\<close>, \<^verbatim>\<open>SetOutboundPort\<close> and \<^verbatim>\<open>SetOutboundConnection\<close>. A fresh
  request is in state \<open>NEW\<close> with Go's zero values elsewhere.
\<close>

record Request =
  state :: State
  outboundIP :: string
  outboundPort :: int
  outboundConnection :: "conn option"

definition NewRequest :: Request where
  "NewRequest = \<lparr>state = NEW, outboundIP = [], outboundPort = 0, outboundConnection = None\<rparr>"

text \<open>
  The fields of \<^verbatim>\<open>SockRequest\<close> that \<^verbatim>\<open>server.go\<close> reads. Its declaration is outside the sources
  at hand, so the integer fields are unbounded integers (every Go integer type embeds) and
  the conversion \<^verbatim>\<open>byte(connect.atype)\<close> is \<open>word_of_int\<close>.
\<close>

record SockRequest =
  atype :: int
  destaddr :: "byte list"
  destport :: int

datatype level = Debug | Info | LogError

text \<open>
  The effects of a goroutine, in program order. A call of the logging package is recorded
  with its level and its format string.
\<close>

datatype event =
    ReqRead nat
  | ConnWrite "byte list"
  | ReqWrite "byte list"
  | LookupHost string
  | Dial string string
  | HandleOutbound
  | SemReceive
  | Close
  | Log level string

record world =
  request :: Request
  trace :: "event list"

text \<open>
  What the outside decides during one run of \<^verbatim>\<open>handleRequest\<close>: the bytes and the error
  that each of the two \<^verbatim>\<open>request.Read\<close> calls delivers, the result of
  \<^verbatim>\<open>GetSocketRequestDeserialized\<close> (same package, outside the sources at hand) on a buffer,
  the results of \<^verbatim>\<open>net.LookupHost\<close>, \<^verbatim>\<open>net.Dial\<close> and \<^verbatim>\<open>net.IP.String\<close>, and the result of
  \<^verbatim>\<open>handler.OutboundHandler.HandleRequest\<close>.
\<close>

record env =
  greeting :: "byte list \<times> error option"
  connectBytes :: "byte list \<times> error option"
  GetSocketRequestDeserialized :: "byte list \<Rightarrow> error + SockRequest"
  lookupHost :: "string \<Rightarrow> error + string list"
  dial :: "string \<Rightarrow> string \<Rightarrow> error + conn"
  ipString :: "byte list \<Rightarrow> string"
  outboundResult :: "error option"

text \<open>A call either returns a value or panics (an index out of range).\<close>

datatype 'a outcome = Panic | Return 'a

subsection \<open>Formatting\<close>

definition digit_char :: "nat \<Rightarrow> char" where
  "digit_char d = ''0123456789'' ! d"

fun decimal :: "nat \<Rightarrow> string" where
  "decimal n = (if n < 10 then [digit_char n]
                else decimal (n div 10) @ [digit_char (n mod 10)])"

declare decimal.simps [simp del]

text \<open>The verb \<^verbatim>\<open>%d\<close> of \<^verbatim>\<open>fmt.Sprintf\<close>.\<close>

definition fmt_d :: "int \<Rightarrow> string" where
  "fmt_d i = (if i < 0 then CHR ''-'' # decimal (nat (- i)) else decimal (nat i))"

text \<open>The conversion \<^verbatim>\<open>string(bs)\<close> of a byte slice.\<close>

definition string_of_bytes :: "byte list \<Rightarrow> string" where
  "string_of_bytes bs = map (\<lambda>b. char_of (unat b)) bs"

text \<open>
  \<^verbatim>\<open>fmt.Sprintf("%d.%d.%d.%d", d[0], d[1], d[2], d[3])\<close> on a slice of at least four bytes
  (the caller checks the length: an index out of range panics).
\<close>

definition dottedQuad :: "byte list \<Rightarrow> string" where
  "dottedQuad d = fmt_d (uint (d ! 0)) @ ''.'' @ fmt_d (uint (d ! 1)) @ ''.'' @
                  fmt_d (uint (d ! 2)) @ ''.'' @ fmt_d (uint (d ! 3))"

subsection \<open>Effects\<close>

definition emit :: "event \<Rightarrow> world \<Rightarrow> world" where
  "emit e w = w\<lparr>trace := trace w @ [e]\<rparr>"

definition SetState :: "State \<Rightarrow> world \<Rightarrow> world" where
  "SetState s w = w\<lparr>request := (request w)\<lparr>state := s\<rparr>\<rparr>"

definition SetOutboundIP :: "string \<Rightarrow> world \<Rightarrow> world" where
  "SetOutboundIP ip w = w\<lparr>request := (request w)\<lparr>outboundIP := ip\<rparr>\<rparr>"

definition SetOutboundPort :: "int \<Rightarrow> world \<Rightarrow> world" where
  "SetOutboundPort p w = w\<lparr>request := (request w)\<lparr>outboundPort := p\<rparr>\<rparr>"

definition SetOutboundConnection :: "conn \<Rightarrow> world \<Rightarrow> world" where
  "SetOutboundConnection c w = w\<lparr>request := (request w)\<lparr>outboundConnection := Some c\<rparr>\<rparr>"

text \<open>
  Modelled from the spec: \<^verbatim>\<open>request.Read(data)\<close> on a fresh buffer of \<open>n\<close> zero bytes. The
  bytes delivered fill a prefix of the buffer; the call returns their number and the error.
\<close>

definition readInto :: "nat \<Rightarrow> byte list \<times> error option \<Rightarrow> nat \<times> error option \<times> byte list" where
  "readInto n r =
     (let got = take n (fst r)
      in (length got, snd r, got @ replicate (n - length got) 0))"

subsection \<open>The error replies\<close>

definition sendSocksError :: "world \<Rightarrow> world" where
  "sendSocksError w =
     (let w1 = SetState ERROR w;
          errorStream = [0x05, 0x01]
      in emit (ReqWrite errorStream) w1)"

definition sendSocksConnectError :: "byte \<Rightarrow> SockRequest \<Rightarrow> world \<Rightarrow> world" where
  "sendSocksConnectError status req w =
     (let w1 = SetState ERROR w;
          errorStream = [];
          errorStream = errorStream @ [0x05];
          errorStream = errorStream @ [status];
          errorStream = errorStream @ [0x00];
          errorStream = errorStream @ destaddr req;
          errorStream = errorStream @ [0x01];
          errorStream = errorStream @ [0xBB]
      in emit (ReqWrite errorStream) w1)"

subsection \<open>The greeting\<close>

text \<open>The loop \<^verbatim>\<open>for i := 0; i < n; i++\<close> that logs the bytes read.\<close>

primrec logBytes :: "byte list \<Rightarrow> world \<Rightarrow> world" where
  "logBytes [] w = w"
| "logBytes (b # bs) w = logBytes bs (emit (Log Debug ''0x%02x '') w)"

definition handleInitial :: "env \<Rightarrow> world \<Rightarrow> error option \<times> world" where
  "handleInitial ev w =
     (let w1 = emit (ReqRead 20) w;
          (n, e, data) = readInto 20 (greeting ev)
      in case e of
           Some err \<Rightarrow> (Some err, w1)
         | None \<Rightarrow>
             (let version = data ! 0;
                  authCt = data ! 1;
                  w2 = emit (Log Debug ''Total num : %d'') w1;
                  w3 = emit (Log Debug ''Received connect with version : %d'') w2;
                  w4 = emit (Log Debug ''Received connect with auth ct : %d'') w3;
                  w5 = (if version \<noteq> 0x05
                        then emit (Log LogError ''Version mismatch'') w4
                        else emit (Log Debug ''Version matched!!!'') w4);
                  w6 = logBytes (take n data) w5;
                  w7 = SetState INITIALIZING w6
              in (None, w7)))"

subsection \<open>The connect request\<close>

text \<open>Lines 231 to 245: the success reply, once the outbound connection is stored.\<close>

definition sendSuccess :: "SockRequest \<Rightarrow> world \<Rightarrow> error option outcome \<times> world" where
  "sendSuccess connect w =
     (let w1 = SetOutboundPort (destport connect) w;
          dest = destaddr connect;
          port = [0x00, 0x50];
          resp = [0x05, 0x00, 0x00, word_of_int (atype connect)] @ dest @ port
      in (Return None, emit (ReqWrite resp) w1))"

definition handleConnectRequest :: "env \<Rightarrow> world \<Rightarrow> error option outcome \<times> world" where
  "handleConnectRequest ev w =
     (let w1 = emit (ReqRead 200) w;
          (n, e, data) = readInto 200 (connectBytes ev)
      in case e of
           Some err \<Rightarrow> (Return (Some err), emit (Log LogError ''error reading request'') w1)
         | None \<Rightarrow>
            (case GetSocketRequestDeserialized ev data of
               Inl err \<Rightarrow> (Return (Some err), emit (Log LogError ''Connect request error'') w1)
             | Inr connect \<Rightarrow>
                 if atype connect = 0x01 then
                   (if length (destaddr connect) < 4 then (Panic, w1)
                    else
                      (let ip = dottedQuad (destaddr connect);
                           w2 = SetOutboundIP ip w1;
                           address = ip @ '':'' @ fmt_d (destport connect);
                           w3 = emit (Dial ''tcp'' address) w2
                       in case dial ev ''tcp'' address of
                            Inl err \<Rightarrow> (Return (Some err), w3)
                          | Inr outConnection \<Rightarrow>
                              sendSuccess connect (SetOutboundConnection outConnection w3)))
                 else if atype connect = 0x03 then
                   (let name = string_of_bytes (destaddr connect);
                        w2 = emit (LookupHost name) w1
                    in case lookupHost ev name of
                         Inl err \<Rightarrow> (Return (Some err), w2)
                       | Inr addr \<Rightarrow>
                           (case addr of
                              [] \<Rightarrow> (Panic, w2)
                            | a # _ \<Rightarrow>
                               (let host = a @ '':'' @ fmt_d (destport connect);
                                    w3 = emit (Dial ''tcp'' host) w2
                                in case dial ev ''tcp'' host of
                                     Inl err \<Rightarrow> (Return (Some err), w3)
                                   | Inr outConnection \<Rightarrow>
                                       sendSuccess connect
                                         (SetOutboundConnection outConnection w3))))
                 else if atype connect = 0x04 then
                   (let ipAddr = ipString ev (destaddr connect);
                        w2 = SetOutboundIP ipAddr w1;
                        address = ''['' @ ipAddr @ '']:'' @ fmt_d (destport connect);
                        w3 = emit (Dial ''tcp6'' address) w2
                    in case dial ev ''tcp6'' address of
                         Inl err \<Rightarrow> (Return (Some err), w3)
                       | Inr outConnection \<Rightarrow>
                           sendSuccess connect (SetOutboundConnection outConnection w3))
                 else
                   (Return (Some (Error ''Unsupported connection type'')),
                    sendSocksConnectError 0x08 connect w1)))"

subsection \<open>One connection\<close>

text \<open>
  \<^verbatim>\<open>handleRequest\<close>: the receive \<^verbatim>\<open><-sem\<close> is the effect \<open>SemReceive\<close>; the deferred
  \<^verbatim>\<open>request.Close()\<close> runs last, also when the call panics.
\<close>

definition handleRequest :: "env \<Rightarrow> error option outcome \<times> world" where
  "handleRequest ev =
     (let w = emit (Log Debug ''Processing incoming client request'')
                \<lparr>request = NewRequest, trace = []\<rparr>;
          (err, w1) = handleInitial ev w
      in case err of
           Some e \<Rightarrow> (Return None, emit Close (emit SemReceive (sendSocksError w1)))
         | None \<Rightarrow>
            (let response = [0x05, 0x00];
                 w2 = emit (ConnWrite response) w1;
                 (r, w3) = handleConnectRequest ev w2
             in case r of
                  Panic \<Rightarrow> (Panic, emit Close w3)
                | Return (Some e) \<Rightarrow>
                    (let w4 = emit (Log LogError ''Error handling connect request : '') w3
                     in (Return None, emit Close (emit SemReceive (sendSocksError w4))))
                | Return None \<Rightarrow>
                    (let w4 = emit HandleOutbound w3
                     in case outboundResult ev of
                          Some e \<Rightarrow>
                            (let w5 = emit (Log LogError
                                              (''Error while sending request : %s'' @ [CHR 0x0A])) w4
                             in (Return None, emit Close (emit SemReceive (sendSocksError w5))))
                        | None \<Rightarrow> (Return None, emit Close (emit SemReceive w4)))))"

subsection \<open>The server and its goroutines\<close>

text \<open>
  The fields of \<^verbatim>\<open>Server\<close> that the admission of connections depends on; \<open>semCap\<close> is the
  capacity of the channel \<^verbatim>\<open>sem\<close>. \<^verbatim>\<open>make(chan bool, n)\<close> panics when \<open>n\<close> is negative.
\<close>

record Server =
  name :: string
  port :: int
  maxConnectionCount :: int
  semCap :: nat

definition New :: "string \<Rightarrow> int \<Rightarrow> int \<Rightarrow> Server outcome" where
  "New nm p m =
     (if m < 0 then Panic
      else Return \<lparr>name = nm, port = p, maxConnectionCount = m, semCap = nat m\<rparr>)"

text \<open>
  Where \<^verbatim>\<open>startHandler\<close> stands: about to receive from \<^verbatim>\<open>connectHandler\<close>, about to send on
  \<^verbatim>\<open>sem\<close> for a connection, about to start the goroutine for it, or returned.
\<close>

datatype dispatcher = Receiving | Sending conn | Spawning conn | Returned

text \<open>
  A running \<^verbatim>\<open>handleRequest\<close>: the effects it has still to perform, whether it ends in a
  panic, and whether the value sent on \<^verbatim>\<open>sem\<close> for it is still unreceived.
\<close>

record goroutine =
  holding :: bool
  todo :: "event list"
  panics :: bool

record system =
  sem :: nat
  handler :: dispatcher
  sessions :: "goroutine list"

definition initial :: system where
  "initial = \<lparr>sem = 0, handler = Receiving, sessions = []\<rparr>"

definition spawn :: "env \<Rightarrow> goroutine" where
  "spawn ev = \<lparr>holding = True, todo = trace (snd (handleRequest ev)),
               panics = (fst (handleRequest ev) = Panic)\<rparr>"

text \<open>
  One atomic step of the process. \<open>accept\<close> and \<open>closed\<close> are the two results of the
  receive in \<^verbatim>\<open>startHandler\<close>; \<open>send\<close> is \<^verbatim>\<open>server.sem <- true\<close> on a channel with room;
  \<open>handoff\<close> is the same send meeting a receiver on a channel without buffer; \<open>go\<close> starts
  the goroutine; \<open>receive\<close> is \<^verbatim>\<open><-sem\<close> in a goroutine, \<open>effect\<close> any other effect of it;
  \<open>return\<close> ends a goroutine, \<open>crash\<close> ends the process when a goroutine panics.
\<close>

inductive step :: "Server \<Rightarrow> system \<Rightarrow> system \<Rightarrow> bool" for srv :: Server where
  accept: "handler s = Receiving \<Longrightarrow> step srv s (s\<lparr>handler := Sending c\<rparr>)"
| closed: "handler s = Receiving \<Longrightarrow> step srv s (s\<lparr>handler := Returned\<rparr>)"
| send: "handler s = Sending c \<Longrightarrow> sem s < semCap srv \<Longrightarrow>
         step srv s (s\<lparr>sem := sem s + 1, handler := Spawning c\<rparr>)"
| handoff: "handler s = Sending c \<Longrightarrow> semCap srv = 0 \<Longrightarrow> i < length (sessions s) \<Longrightarrow>
         todo (sessions s ! i) = SemReceive # es \<Longrightarrow>
         step srv s (s\<lparr>handler := Spawning c,
                        sessions := (sessions s)[i := (sessions s ! i)\<lparr>holding := False, todo := es\<rparr>]\<rparr>)"
| go: "handler s = Spawning c \<Longrightarrow>
         step srv s (s\<lparr>handler := Receiving, sessions := sessions s @ [spawn ev]\<rparr>)"
| receive: "i < length (sessions s) \<Longrightarrow> todo (sessions s ! i) = SemReceive # es \<Longrightarrow> 0 < sem s \<Longrightarrow>
         step srv s (s\<lparr>sem := sem s - 1,
                        sessions := (sessions s)[i := (sessions s ! i)\<lparr>holding := False, todo := es\<rparr>]\<rparr>)"
| effect: "i < length (sessions s) \<Longrightarrow> todo (sessions s ! i) = e # es \<Longrightarrow> e \<noteq> SemReceive \<Longrightarrow>
         step srv s (s\<lparr>sessions := (sessions s)[i := (sessions s ! i)\<lparr>todo := es\<rparr>]\<rparr>)"
| return: "i < length (sessions s) \<Longrightarrow> todo (sessions s ! i) = [] \<Longrightarrow> \<not> panics (sessions s ! i) \<Longrightarrow>
         step srv s (s\<lparr>sessions := take i (sessions s) @ drop (Suc i) (sessions s)\<rparr>)"
| crash: "i < length (sessions s) \<Longrightarrow> todo (sessions s ! i) = [] \<Longrightarrow> panics (sessions s ! i) \<Longrightarrow>
         step srv s (s\<lparr>handler := Returned, sessions := []\<rparr>)"

inductive reachable :: "Server \<Rightarrow> system \<Rightarrow> bool" for srv :: Server where
  at_start: "reachable srv initial"
| after_step: "reachable srv s \<Longrightarrow> step srv s s' \<Longrightarrow> reachable srv s'"

text \<open>The goroutines for which a value was sent on \<^verbatim>\<open>sem\<close> and not yet received.\<close>

definition active :: "system \<Rightarrow> nat" where
  "active s = length (filter holding (sessions s))"

text \<open>The value sent for a goroutine that is about to start.\<close>

definition pending :: "system \<Rightarrow> nat" where
  "pending s = (case handler s of Spawning c \<Rightarrow> 1 | _ \<Rightarrow> 0)"

subsection \<open>Reading a trace\<close>

primrec isLog :: "event \<Rightarrow> bool" where
  "isLog (ReqRead n) = False"
| "isLog (ConnWrite bs) = False"
| "isLog (ReqWrite bs) = False"
| "isLog (LookupHost h) = False"
| "isLog (Dial n a) = False"
| "isLog HandleOutbound = False"
| "isLog SemReceive = False"
| "isLog Close = False"
| "isLog (Log l m) = True"

text \<open>The effects other than logging.\<close>

definition io :: "event list \<Rightarrow> event list" where
  "io t = filter (\<lambda>e. \<not> isLog e) t"

text \<open>
  What the client is sent, call by call. Modelled from the spec: \<^verbatim>\<open>request.Write\<close> writes
  its buffer to the client connection that the request wraps.
\<close>

primrec clientWrites :: "event list \<Rightarrow> byte list list" where
  "clientWrites [] = []"
| "clientWrites (e # t) =
     (case e of ConnWrite bs \<Rightarrow> bs # clientWrites t
              | ReqWrite bs \<Rightarrow> bs # clientWrites t
              | _ \<Rightarrow> clientWrites t)"

text \<open>The reads from and the writes to the client, in order.\<close>

primrec clientIO :: "event list \<Rightarrow> event list" where
  "clientIO [] = []"
| "clientIO (e # t) =
     (case e of ReqRead n \<Rightarrow> e # clientIO t
              | ConnWrite bs \<Rightarrow> e # clientIO t
              | ReqWrite bs \<Rightarrow> e # clientIO t
              | _ \<Rightarrow> clientIO t)"

text \<open>The look-ups and the dials, in order.\<close>

primrec netEvents :: "event list \<Rightarrow> event list" where
  "netEvents [] = []"
| "netEvents (e # t) =
     (case e of LookupHost h \<Rightarrow> e # netEvents t
              | Dial n a \<Rightarrow> e # netEvents t
              | _ \<Rightarrow> netEvents t)"

text \<open>The number of receives on \<^verbatim>\<open>sem\<close>.\<close>

definition releases :: "event list \<Rightarrow> nat" where
  "releases t = count_list t SemReceive"

text \<open>The layout that \<^verbatim>\<open>sendSocksConnectError\<close> writes, and its recogniser.\<close>

definition connectErrorReply :: "byte \<Rightarrow> byte list \<Rightarrow> byte list" where
  "connectErrorReply status dest = [0x05, status, 0x00] @ dest @ [0x01, 0xBB]"

definition isConnectErrorReply :: "byte list \<Rightarrow> bool" where
  "isConnectErrorReply bs =
     (5 \<le> length bs \<and> bs ! 0 = 0x05 \<and> bs ! 2 = 0x00 \<and>
      bs ! (length bs - 2) = 0x01 \<and> bs ! (length bs - 1) = 0xBB)"

text \<open>The layout of the success reply of \<^verbatim>\<open>handleConnectRequest\<close>.\<close>

definition successReply :: "SockRequest \<Rightarrow> byte list" where
  "successReply c = [0x05, 0x00, 0x00, word_of_int (atype c)] @ destaddr c @ [0x00, 0x50]"

subsection \<open>Which return a run reaches\<close>

text \<open>
  The return statement (or the panic) that the inputs drive a run of \<^verbatim>\<open>handleRequest\<close>
  into, read off the inputs alone.
\<close>

datatype ending =
    GreetingFailed | ConnectReadFailed | Malformed | ResolutionFailed | DialFailed
  | UnsupportedType | Panicked | RelayFailed | Relayed

definition connectData :: "env \<Rightarrow> byte list" where
  "connectData ev = snd (snd (readInto 200 (connectBytes ev)))"

definition afterDial :: "env \<Rightarrow> string \<Rightarrow> string \<Rightarrow> ending" where
  "afterDial ev network address =
     (case dial ev network address of
        Inl e \<Rightarrow> DialFailed
      | Inr c \<Rightarrow> (case outboundResult ev of Some e \<Rightarrow> RelayFailed | None \<Rightarrow> Relayed))"

definition exitPath :: "env \<Rightarrow> ending" where
  "exitPath ev =
     (case snd (greeting ev) of
        Some e \<Rightarrow> GreetingFailed
      | None \<Rightarrow>
         (case snd (connectBytes ev) of
            Some e \<Rightarrow> ConnectReadFailed
          | None \<Rightarrow>
             (case GetSocketRequestDeserialized ev (connectData ev) of
                Inl e \<Rightarrow> Malformed
              | Inr c \<Rightarrow>
                  if atype c = 0x01 then
                    (if length (destaddr c) < 4 then Panicked
                     else afterDial ev ''tcp'' (dottedQuad (destaddr c) @ '':'' @ fmt_d (destport c)))
                  else if atype c = 0x03 then
                    (case lookupHost ev (string_of_bytes (destaddr c)) of
                       Inl e \<Rightarrow> ResolutionFailed
                     | Inr [] \<Rightarrow> Panicked
                     | Inr (a # as) \<Rightarrow> afterDial ev ''tcp'' (a @ '':'' @ fmt_d (destport c)))
                  else if atype c = 0x04 then
                    afterDial ev ''tcp6''
                      (''['' @ ipString ev (destaddr c) @ '']:'' @ fmt_d (destport c))
                  else UnsupportedType)))"

text \<open>The buffers passed to \<^verbatim>\<open>request.Write\<close>: the replies after the method selection.\<close>

primrec replies :: "event list \<Rightarrow> byte list list" where
  "replies [] = []"
| "replies (e # t) = (case e of ReqWrite bs \<Rightarrow> bs # replies t | _ \<Rightarrow> replies t)"

definition isSuccessReply :: "byte list \<Rightarrow> bool" where
  "isSuccessReply bs =
     (6 \<le> length bs \<and> take 3 bs = [0x05, 0x00, 0x00] \<and> drop (length bs - 2) bs = [0x00, 0x50])"

text \<open>An error reply: the two bytes of \<^verbatim>\<open>sendSocksError\<close> or the layout of \<^verbatim>\<open>sendSocksConnectError\<close>.\<close>

definition isErrorReply :: "byte list \<Rightarrow> bool" where
  "isErrorReply bs = (bs = [0x05, 0x01] \<or> isConnectErrorReply bs)"

text \<open>
  The outcomes in the words of the specification: the client observes a successful reply,
  or the two-byte greeting error, or one connect-error reply, and nothing else.
\<close>

definition claimedOutcome :: "byte list list \<Rightarrow> bool" where
  "claimedOutcome rs =
     (case rs of
        [r] \<Rightarrow> isSuccessReply r \<or> r = [0x05, 0x01] \<or> isConnectErrorReply r
      | _ \<Rightarrow> False)"

subsection \<open>The admission invariant\<close>

text \<open>
  The values in \<^verbatim>\<open>sem\<close> cover the goroutines that have not received yet and the one about
  to start; a goroutine that has received will not receive again.
\<close>

definition admitted :: "Server \<Rightarrow> system \<Rightarrow> bool" where
  "admitted srv s \<longleftrightarrow>
     active s + pending s \<le> sem s \<and> sem s \<le> semCap srv \<and>
     (\<forall>g \<in> set (sessions s). releases (todo g) \<le> (if holding g then 1 else 0))"

subsection \<open>Sample inputs\<close>

definition sampleGreeting :: "byte list" where
  "sampleGreeting = [0x05, 0x01, 0x00]"

definition ipv4Request :: SockRequest where
  "ipv4Request = \<lparr>atype = 0x01, destaddr = [127, 0, 0, 1], destport = 8080\<rparr>"

definition ipv4Bytes :: "byte list" where
  "ipv4Bytes = [0x05, 0x01, 0x00, 0x01, 127, 0, 0, 1, 0x1F, 0x90]"

definition domainRequest :: SockRequest where
  "domainRequest = \<lparr>atype = 0x03,
     destaddr = [0x65, 0x78, 0x61, 0x6D, 0x70, 0x6C, 0x65, 0x2E, 0x63, 0x6F, 0x6D],
     destport = 80\<rparr>"

definition domainBytes :: "byte list" where
  "domainBytes = [0x05, 0x01, 0x00, 0x03, 11,
     0x65, 0x78, 0x61, 0x6D, 0x70, 0x6C, 0x65, 0x2E, 0x63, 0x6F, 0x6D, 0x00, 0x50]"

definition otherRequest :: SockRequest where
  "otherRequest = \<lparr>atype = 0x05, destaddr = [10, 0, 0, 7], destport = 443\<rparr>"

definition otherBytes :: "byte list" where
  "otherBytes = [0x05, 0x01, 0x00, 0x05, 10, 0, 0, 7, 0x01, 0xBB]"

text \<open>A stand-in for the decoder that knows one request.\<close>

definition decodeOnly :: "byte list \<Rightarrow> SockRequest \<Rightarrow> byte list \<Rightarrow> error + SockRequest" where
  "decodeOnly bytes req data =
     (if take (length bytes) data = bytes then Inr req else Inl (Error ''decode error''))"

definition envRelayed :: env where
  "envRelayed = \<lparr>greeting = (sampleGreeting, None),
     connectBytes = (ipv4Bytes, None),
     GetSocketRequestDeserialized = decodeOnly ipv4Bytes ipv4Request,
     lookupHost = (\<lambda>h. Inl (Error ''no such host'')),
     dial = (\<lambda>n a. if n = ''tcp'' \<and> a = ''127.0.0.1:8080'' then Inr 1
                     else Inl (Error ''connection refused'')),
     ipString = (\<lambda>bs. []),
     outboundResult = None\<rparr>"

definition envRelayFailed :: env where
  "envRelayFailed = envRelayed\<lparr>outboundResult := Some (Error ''broken pipe'')\<rparr>"

definition envDialFailed :: env where
  "envDialFailed = envRelayed\<lparr>dial := (\<lambda>n a. Inl (Error ''connection refused''))\<rparr>"

definition envResolutionFailed :: env where
  "envResolutionFailed = envRelayed\<lparr>connectBytes := (domainBytes, None),
     GetSocketRequestDeserialized := decodeOnly domainBytes domainRequest\<rparr>"

definition envUnsupported :: env where
  "envUnsupported = envRelayed\<lparr>connectBytes := (otherBytes, None),
     GetSocketRequestDeserialized := decodeOnly otherBytes otherRequest\<rparr>"

definition envOldVersion :: env where
  "envOldVersion = envRelayed\<lparr>greeting := ([0x04, 0x01, 0x00], None)\<rparr>"

definition envMalformed :: env where
  "envMalformed = envRelayed\<lparr>connectBytes := ([0x05, 0x01, 0x00], None)\<rparr>"

definition sampleServer :: Server where
  "sampleServer = \<lparr>name = ''proxy'', port = 1080, maxConnectionCount = 2, semCap = 2\<rparr>"

definition sampleSystem :: system where
  "sampleSystem = \<lparr>sem = 1, handler = Receiving, sessions = [spawn envDialFailed]\<rparr>"

section \<open>Properties\<close>

subsection \<open>Effects and projections\<close>

lemma trace_emit [simp]: "trace (emit e w) = trace w @ [e]"
  and request_emit [simp]: "request (emit e w) = request w"
  by (simp_all add: emit_def)

lemma trace_set [simp]:
  "trace (SetState s w) = trace w"
  "trace (SetOutboundIP ip w) = trace w"
  "trace (SetOutboundPort p w) = trace w"
  "trace (SetOutboundConnection c w) = trace w"
  by (simp_all add: SetState_def SetOutboundIP_def SetOutboundPort_def SetOutboundConnection_def)

lemma state_set [simp]:
  "state (request (SetState s w)) = s"
  "state (request (SetOutboundIP ip w)) = state (request w)"
  "state (request (SetOutboundPort p w)) = state (request w)"
  "state (request (SetOutboundConnection c w)) = state (request w)"
  by (simp_all add: SetState_def SetOutboundIP_def SetOutboundPort_def SetOutboundConnection_def)

lemma logBytes_trace:
  "trace (logBytes bs w) = trace w @ replicate (length bs) (Log Debug ''0x%02x '')"
  by (induction bs arbitrary: w) (simp_all add: replicate_app_Cons_same)

lemma logBytes_request [simp]: "request (logBytes bs w) = request w"
  by (induction bs arbitrary: w) simp_all

lemma io_append [simp]: "io (a @ b) = io a @ io b"
  by (simp add: io_def)

lemma io_simps [simp]:
  "io [] = []"
  "io (e # t) = (if isLog e then io t else e # io t)"
  by (simp_all add: io_def)

lemma io_replicate_log [simp]: "io (replicate n (Log l m)) = []"
  by (induction n) simp_all

lemma clientWrites_append [simp]: "clientWrites (a @ b) = clientWrites a @ clientWrites b"
  by (induction a) (simp_all split: event.splits)

lemma clientIO_append [simp]: "clientIO (a @ b) = clientIO a @ clientIO b"
  by (induction a) (simp_all split: event.splits)

lemma netEvents_append [simp]: "netEvents (a @ b) = netEvents a @ netEvents b"
  by (induction a) (simp_all split: event.splits)

lemma replies_append [simp]: "replies (a @ b) = replies a @ replies b"
  by (induction a) (simp_all split: event.splits)

lemma releases_append [simp]: "releases (a @ b) = releases a + releases b"
  by (induction a) (simp_all add: releases_def)

lemma releases_simps [simp]:
  "releases [] = 0"
  "releases (e # t) = (if e = SemReceive then 1 else 0) + releases t"
  by (simp_all add: releases_def)

text \<open>Logging is invisible to every projection.\<close>

lemma proj_io:
  "clientWrites (io t) = clientWrites t"
  "clientIO (io t) = clientIO t"
  "netEvents (io t) = netEvents t"
  "replies (io t) = replies t"
  "releases (io t) = releases t"
  by (induction t) (auto split: event.splits)

subsection \<open>The greeting\<close>

lemma handleInitial_fst [simp]: "fst (handleInitial ev w) = snd (greeting ev)"
  by (cases "snd (greeting ev)") (simp_all add: handleInitial_def readInto_def Let_def)

lemma handleInitial_io [simp]:
  "io (trace (snd (handleInitial ev w))) = io (trace w) @ [ReqRead 20]"
  by (cases "snd (greeting ev)")
     (simp_all add: handleInitial_def readInto_def Let_def logBytes_trace)

lemma handleInitial_proj [simp]:
  "clientWrites (trace (snd (handleInitial ev w))) = clientWrites (trace w)"
  "clientIO (trace (snd (handleInitial ev w))) = clientIO (trace w) @ [ReqRead 20]"
  "netEvents (trace (snd (handleInitial ev w))) = netEvents (trace w)"
  "replies (trace (snd (handleInitial ev w))) = replies (trace w)"
  "releases (trace (snd (handleInitial ev w))) = releases (trace w)"
  using handleInitial_io [of ev w]
    proj_io [of "trace (snd (handleInitial ev w))", symmetric]
    proj_io [of "trace w", symmetric]
  by simp_all

lemma handleInitial_state [simp]:
  "state (request (snd (handleInitial ev w))) =
     (if snd (greeting ev) = None then INITIALIZING else state (request w))"
  by (cases "snd (greeting ev)") (simp_all add: handleInitial_def readInto_def Let_def)

subsection \<open>Case analysis on the inputs\<close>

lemmas run_defs = handleRequest_def handleConnectRequest_def sendSuccess_def
  sendSocksError_def sendSocksConnectError_def readInto_def Let_def split_beta

lemmas path_defs = exitPath_def afterDial_def connectData_def readInto_def Let_def

lemma env_cases [case_names greeting_error read_error malformed short_ipv4 ipv4
    lookup_error lookup_empty domain ipv6 unsupported]:
  obtains
    e where "snd (greeting ev) = Some e"
  | e where "snd (greeting ev) = None" "snd (connectBytes ev) = Some e"
  | e where "snd (greeting ev) = None" "snd (connectBytes ev) = None"
      "GetSocketRequestDeserialized ev (connectData ev) = Inl e"
  | c where "snd (greeting ev) = None" "snd (connectBytes ev) = None"
      "GetSocketRequestDeserialized ev (connectData ev) = Inr c"
      "atype c = 1" "length (destaddr c) < 4"
  | c where "snd (greeting ev) = None" "snd (connectBytes ev) = None"
      "GetSocketRequestDeserialized ev (connectData ev) = Inr c"
      "atype c = 1" "\<not> length (destaddr c) < 4"
  | c e where "snd (greeting ev) = None" "snd (connectBytes ev) = None"
      "GetSocketRequestDeserialized ev (connectData ev) = Inr c"
      "atype c = 3" "lookupHost ev (string_of_bytes (destaddr c)) = Inl e"
  | c where "snd (greeting ev) = None" "snd (connectBytes ev) = None"
      "GetSocketRequestDeserialized ev (connectData ev) = Inr c"
      "atype c = 3" "lookupHost ev (string_of_bytes (destaddr c)) = Inr []"
  | c a as where "snd (greeting ev) = None" "snd (connectBytes ev) = None"
      "GetSocketRequestDeserialized ev (connectData ev) = Inr c"
      "atype c = 3" "lookupHost ev (string_of_bytes (destaddr c)) = Inr (a # as)"
  | c where "snd (greeting ev) = None" "snd (connectBytes ev) = None"
      "GetSocketRequestDeserialized ev (connectData ev) = Inr c"
      "atype c = 4"
  | c where "snd (greeting ev) = None" "snd (connectBytes ev) = None"
      "GetSocketRequestDeserialized ev (connectData ev) = Inr c"
      "atype c \<noteq> 1" "atype c \<noteq> 3" "atype c \<noteq> 4"
proof (cases "snd (greeting ev)")
  case (Some e)
  then show ?thesis using that(1) by blast
next
  case g: None
  show ?thesis
  proof (cases "snd (connectBytes ev)")
    case (Some e)
    then show ?thesis using g that(2) by blast
  next
    case r: None
    show ?thesis
    proof (cases "GetSocketRequestDeserialized ev (connectData ev)")
      case (Inl e)
      then show ?thesis using g r that(3) by blast
    next
      case p: (Inr c)
      show ?thesis
      proof (cases "lookupHost ev (string_of_bytes (destaddr c))")
        case (Inl e)
        then show ?thesis
          using g r p that(4,5,6,9,10) [of c] by (metis (full_types))
      next
        case (Inr addrs)
        then show ?thesis
          using g r p that(4,5,7,8,9,10) [of c] by (cases addrs) (metis (full_types))+
      qed
    qed
  qed
qed

subsection \<open>One run, path by path\<close>

lemma run_outcome:
  "fst (handleRequest ev) = (if exitPath ev = Panicked then Panic else Return None)"
  by (cases rule: env_cases [of ev])
     (simp_all add: run_defs path_defs split: option.splits sum.splits)

lemma run_releases:
  "releases (trace (snd (handleRequest ev))) = (if exitPath ev = Panicked then 0 else 1)"
  by (cases rule: env_cases [of ev])
     (simp_all add: run_defs path_defs split: option.splits sum.splits)

lemma run_state:
  "state (request (snd (handleRequest ev))) =
     (if exitPath ev = Panicked \<or> exitPath ev = Relayed then INITIALIZING else ERROR)"
  by (cases rule: env_cases [of ev])
     (simp_all add: run_defs path_defs split: option.splits sum.splits)

text \<open>The effects other than logging, for the runs that never reach a dial.\<close>

lemma run_io:
  "exitPath ev = GreetingFailed \<Longrightarrow>
     io (trace (snd (handleRequest ev))) = [ReqRead 20, ReqWrite [5, 1], SemReceive, Close]"
  "exitPath ev = ConnectReadFailed \<or> exitPath ev = Malformed \<Longrightarrow>
     io (trace (snd (handleRequest ev))) =
       [ReqRead 20, ConnWrite [5, 0], ReqRead 200, ReqWrite [5, 1], SemReceive, Close]"
  "exitPath ev = ResolutionFailed \<Longrightarrow>
     GetSocketRequestDeserialized ev (connectData ev) = Inr c \<Longrightarrow>
     io (trace (snd (handleRequest ev))) =
       [ReqRead 20, ConnWrite [5, 0], ReqRead 200, LookupHost (string_of_bytes (destaddr c)),
        ReqWrite [5, 1], SemReceive, Close]"
  "exitPath ev = UnsupportedType \<Longrightarrow>
     GetSocketRequestDeserialized ev (connectData ev) = Inr c \<Longrightarrow>
     io (trace (snd (handleRequest ev))) =
       [ReqRead 20, ConnWrite [5, 0], ReqRead 200, ReqWrite (connectErrorReply 8 (destaddr c)),
        ReqWrite [5, 1], SemReceive, Close]"
  by (cases rule: env_cases [of ev];
      simp add: run_defs path_defs connectErrorReply_def split: option.splits sum.splits)+

lemma run_relay:
  "HandleOutbound \<in> set (trace (snd (handleRequest ev))) \<longleftrightarrow>
     exitPath ev = RelayFailed \<or> exitPath ev = Relayed"
  by (cases rule: env_cases [of ev])
     (simp_all add: run_defs path_defs handleInitial_def logBytes_trace
        split: option.splits sum.splits)

lemma run_clientIO:
  "snd (greeting ev) = None \<Longrightarrow>
     take 3 (clientIO (trace (snd (handleRequest ev)))) =
       [ReqRead 20, ConnWrite [0x05, 0x00], ReqRead 200]"
  by (cases rule: env_cases [of ev])
     (simp_all add: run_defs path_defs split: option.splits sum.splits)

lemma run_writes:
  "exitPath ev = GreetingFailed \<Longrightarrow> clientWrites (trace (snd (handleRequest ev))) = [[5, 1]]"
  "exitPath ev = ConnectReadFailed \<or> exitPath ev = Malformed \<or>
   exitPath ev = ResolutionFailed \<or> exitPath ev = DialFailed \<Longrightarrow>
     clientWrites (trace (snd (handleRequest ev))) = [[5, 0], [5, 1]]"
  "exitPath ev = Panicked \<Longrightarrow> clientWrites (trace (snd (handleRequest ev))) = [[5, 0]]"
  by (cases rule: env_cases [of ev];
      simp add: run_defs path_defs split: option.splits sum.splits)+

lemma run_writes_parsed:
  assumes "GetSocketRequestDeserialized ev (connectData ev) = Inr c"
  shows "exitPath ev = UnsupportedType \<Longrightarrow>
           clientWrites (trace (snd (handleRequest ev))) =
             [[5, 0], connectErrorReply 8 (destaddr c), [5, 1]]"
    and "exitPath ev = RelayFailed \<Longrightarrow>
           clientWrites (trace (snd (handleRequest ev))) = [[5, 0], successReply c, [5, 1]]"
    and "exitPath ev = Relayed \<Longrightarrow>
           clientWrites (trace (snd (handleRequest ev))) = [[5, 0], successReply c]"
  using assms
  by (cases rule: env_cases [of ev];
      simp add: run_defs path_defs connectErrorReply_def successReply_def
           split: option.splits sum.splits)+

lemma run_replies:
  "exitPath ev = GreetingFailed \<or> exitPath ev = ConnectReadFailed \<or> exitPath ev = Malformed \<or>
   exitPath ev = ResolutionFailed \<or> exitPath ev = DialFailed \<Longrightarrow>
     replies (trace (snd (handleRequest ev))) = [[5, 1]]"
  by (cases rule: env_cases [of ev])
     (simp_all add: run_defs path_defs split: option.splits sum.splits)

lemma run_replies_parsed:
  assumes "GetSocketRequestDeserialized ev (connectData ev) = Inr c"
  shows "exitPath ev = UnsupportedType \<Longrightarrow>
           replies (trace (snd (handleRequest ev))) = [connectErrorReply 8 (destaddr c), [5, 1]]"
    and "exitPath ev = RelayFailed \<Longrightarrow>
           replies (trace (snd (handleRequest ev))) = [successReply c, [5, 1]]"
    and "exitPath ev = Relayed \<Longrightarrow>
           replies (trace (snd (handleRequest ev))) = [successReply c]"
  using assms
  by (cases rule: env_cases [of ev];
      simp add: run_defs path_defs connectErrorReply_def successReply_def
           split: option.splits sum.splits)+

lemma run_lookup:
  assumes "snd (greeting ev) = None" "snd (connectBytes ev) = None"
    and "GetSocketRequestDeserialized ev (connectData ev) = Inr c" and "atype c = 0x03"
  shows "take 1 (netEvents (trace (snd (handleRequest ev)))) =
           [LookupHost (string_of_bytes (destaddr c))]"
    and "lookupHost ev (string_of_bytes (destaddr c)) = Inl e \<Longrightarrow>
           netEvents (trace (snd (handleRequest ev))) = [LookupHost (string_of_bytes (destaddr c))]"
    and "lookupHost ev (string_of_bytes (destaddr c)) = Inl e \<Longrightarrow>
           exitPath ev = ResolutionFailed"
  using assms
  by (simp_all add: run_defs path_defs split: option.splits sum.splits list.splits)

lemma parsed_paths:
  "exitPath ev = UnsupportedType \<or> exitPath ev = RelayFailed \<or> exitPath ev = Relayed \<Longrightarrow>
     \<exists>c. GetSocketRequestDeserialized ev (connectData ev) = Inr c"
  by (cases rule: env_cases [of ev])
     (simp_all add: path_defs split: option.splits sum.splits)

subsection \<open>Reply layouts\<close>

lemma successReply_not_error:
  "successReply c \<noteq> [0x05, 0x01]"
  "\<not> isConnectErrorReply (successReply c)"
  "\<not> isErrorReply (successReply c)"
  by (simp_all add: isErrorReply_def isConnectErrorReply_def successReply_def nth_append)

lemma successReply_is_success: "isSuccessReply (successReply c)"
  by (simp add: isSuccessReply_def successReply_def)

lemma connectErrorReply_is_error: "isConnectErrorReply (connectErrorReply st d)"
  by (simp add: isConnectErrorReply_def connectErrorReply_def nth_append)

lemma short_not_connect_error: "\<not> isConnectErrorReply [a, b]"
  by (simp add: isConnectErrorReply_def)

subsection \<open>The sample inputs\<close>

lemmas sample_defs = envRelayed_def envRelayFailed_def envDialFailed_def envResolutionFailed_def
  envUnsupported_def envOldVersion_def envMalformed_def decodeOnly_def sampleGreeting_def
  ipv4Request_def ipv4Bytes_def domainRequest_def domainBytes_def otherRequest_def otherBytes_def

lemma dottedQuad_localhost: "dottedQuad [127, 0, 0, 1] = ''127.0.0.1''"
  by (simp add: dottedQuad_def fmt_d_def decimal.simps digit_char_def)

lemma fmt_d_8080: "fmt_d 8080 = ''8080''"
  by (simp add: fmt_d_def decimal.simps digit_char_def)

lemma example_com:
  "string_of_bytes [0x65, 0x78, 0x61, 0x6D, 0x70, 0x6C, 0x65, 0x2E, 0x63, 0x6F, 0x6D] =
     ''example.com''"
  by code_simp

lemma sample_paths:
  "exitPath envRelayed = Relayed"
  "exitPath envRelayFailed = RelayFailed"
  "exitPath envDialFailed = DialFailed"
  "exitPath envResolutionFailed = ResolutionFailed"
  "exitPath envUnsupported = UnsupportedType"
  "exitPath envOldVersion = Relayed"
  "exitPath envMalformed = Malformed"
  by (simp_all add: sample_defs path_defs dottedQuad_localhost fmt_d_8080 example_com)

lemma sample_parsed:
  "GetSocketRequestDeserialized envRelayed (connectData envRelayed) = Inr ipv4Request"
  "GetSocketRequestDeserialized envRelayFailed (connectData envRelayFailed) = Inr ipv4Request"
  "GetSocketRequestDeserialized envUnsupported (connectData envUnsupported) = Inr otherRequest"
  "GetSocketRequestDeserialized envResolutionFailed (connectData envResolutionFailed) =
     Inr domainRequest"
  by (simp_all add: sample_defs path_defs)

subsection \<open>The admission invariant is kept by every step\<close>

lemma count_update:
  "i < length xs \<Longrightarrow>
     length (filter P (xs[i := y])) + (if P (xs ! i) then 1 else 0) =
     length (filter P xs) + (if P y then 1 else 0)"
proof (induction xs arbitrary: i)
  case Nil
  then show ?case by simp
next
  case (Cons x xs)
  then show ?case by (cases i) auto
qed

lemma count_remove:
  assumes "i < length xs"
  shows "length (filter P (take i xs @ drop (Suc i) xs)) + (if P (xs ! i) then 1 else 0) =
         length (filter P xs)"
proof -
  have "xs = take i xs @ xs ! i # drop (Suc i) xs"
    using assms by (rule id_take_nth_drop)
  then have "filter P xs = filter P (take i xs) @ filter P (xs ! i # drop (Suc i) xs)"
    by (metis filter_append)
  then show ?thesis by simp
qed

lemma ball_update:
  assumes "\<forall>g \<in> set xs. Q g" and "Q y"
  shows "\<forall>g \<in> set (xs[i := y]). Q g"
  using assms set_update_subset_insert [of xs i y] by blast

lemma spawn_releases: "releases (todo (spawn ev)) \<le> 1"
  by (simp add: spawn_def run_releases)

lemma admitted_initial: "admitted srv initial"
  by (simp add: admitted_def initial_def active_def pending_def)

lemma admitted_step:
  assumes "admitted srv s" and "step srv s s'"
  shows "admitted srv s'"
  using assms(2)
proof cases
  case (accept c)
  then show ?thesis using assms(1)
    by (auto simp: admitted_def active_def pending_def)
next
  case closed
  then show ?thesis using assms(1)
    by (auto simp: admitted_def active_def pending_def)
next
  case (send c)
  then show ?thesis using assms(1)
    by (auto simp: admitted_def active_def pending_def)
next
  case (handoff c i es)
  let ?g = "sessions s ! i"
  let ?g' = "?g\<lparr>holding := False, todo := es\<rparr>"
  from handoff have mem: "?g \<in> set (sessions s)" by simp
  with assms(1) have "releases (todo ?g) \<le> (if holding ?g then 1 else 0)"
    unfolding admitted_def by blast
  with handoff have h: "holding ?g" and r: "releases es = 0"
    by (auto split: if_splits)
  have "length (filter holding ((sessions s)[i := ?g'])) + 1 = length (filter holding (sessions s))"
    using count_update [of i "sessions s" holding ?g'] handoff h by simp
  moreover have "\<forall>g \<in> set ((sessions s)[i := ?g']). releases (todo g) \<le> (if holding g then 1 else 0)"
  proof (rule ball_update)
    show "\<forall>g \<in> set (sessions s). releases (todo g) \<le> (if holding g then 1 else 0)"
      using assms(1) by (simp add: admitted_def)
    show "releases (todo ?g') \<le> (if holding ?g' then 1 else 0)"
      using r by simp
  qed
  ultimately show ?thesis using assms(1) handoff
    by (auto simp: admitted_def active_def pending_def)
next
  case (go c ev)
  then show ?thesis using assms(1) spawn_releases [of ev]
    by (auto simp: admitted_def active_def pending_def spawn_def)
next
  case (receive i es)
  let ?g = "sessions s ! i"
  let ?g' = "?g\<lparr>holding := False, todo := es\<rparr>"
  from receive have mem: "?g \<in> set (sessions s)" by simp
  with assms(1) have "releases (todo ?g) \<le> (if holding ?g then 1 else 0)"
    unfolding admitted_def by blast
  with receive have h: "holding ?g" and r: "releases es = 0"
    by (auto split: if_splits)
  have "length (filter holding ((sessions s)[i := ?g'])) + 1 = length (filter holding (sessions s))"
    using count_update [of i "sessions s" holding ?g'] receive h by simp
  moreover have "\<forall>g \<in> set ((sessions s)[i := ?g']). releases (todo g) \<le> (if holding g then 1 else 0)"
  proof (rule ball_update)
    show "\<forall>g \<in> set (sessions s). releases (todo g) \<le> (if holding g then 1 else 0)"
      using assms(1) by (simp add: admitted_def)
    show "releases (todo ?g') \<le> (if holding ?g' then 1 else 0)"
      using r by simp
  qed
  ultimately show ?thesis using assms(1) receive
    by (auto simp: admitted_def active_def pending_def)
next
  case (effect i e es)
  let ?g = "sessions s ! i"
  let ?g' = "?g\<lparr>todo := es\<rparr>"
  from effect have mem: "?g \<in> set (sessions s)" by simp
  with assms(1) have "releases (todo ?g) \<le> (if holding ?g then 1 else 0)"
    unfolding admitted_def by blast
  with effect have r: "releases es \<le> (if holding ?g then 1 else 0)"
    by (auto split: if_splits)
  have "length (filter holding ((sessions s)[i := ?g'])) = length (filter holding (sessions s))"
    using count_update [of i "sessions s" holding ?g'] effect by simp
  moreover have "\<forall>g \<in> set ((sessions s)[i := ?g']). releases (todo g) \<le> (if holding g then 1 else 0)"
  proof (rule ball_update)
    show "\<forall>g \<in> set (sessions s). releases (todo g) \<le> (if holding g then 1 else 0)"
      using assms(1) by (simp add: admitted_def)
    show "releases (todo ?g') \<le> (if holding ?g' then 1 else 0)"
      using r by simp
  qed
  ultimately show ?thesis using assms(1) effect
    by (auto simp: admitted_def active_def pending_def)
next
  case (return i)
  have "length (filter holding (take i (sessions s) @ drop (Suc i) (sessions s)))
          \<le> length (filter holding (sessions s))"
    using count_remove [of i "sessions s" holding] return by simp
  moreover have "set (take i (sessions s) @ drop (Suc i) (sessions s)) \<subseteq> set (sessions s)"
    using set_take_subset [of i "sessions s"] set_drop_subset [of "Suc i" "sessions s"] by auto
  then have "\<forall>g \<in> set (take i (sessions s) @ drop (Suc i) (sessions s)).
               releases (todo g) \<le> (if holding g then 1 else 0)"
    using assms(1) unfolding admitted_def by blast
  ultimately show ?thesis using assms(1) return
    by (auto simp: admitted_def active_def pending_def)
next
  case (crash i)
  then show ?thesis using assms(1)
    by (auto simp: admitted_def active_def pending_def)
qed

lemma reachable_admitted: "reachable srv s \<Longrightarrow> admitted srv s"
  by (induction rule: reachable.induct) (auto intro: admitted_initial admitted_step)

lemma sample_reachable: "reachable sampleServer sampleSystem"
proof -
  let ?s1 = "initial\<lparr>handler := Sending 7\<rparr>"
  let ?s2 = "?s1\<lparr>sem := sem ?s1 + 1, handler := Spawning 7\<rparr>"
  let ?s3 = "?s2\<lparr>handler := Receiving, sessions := sessions ?s2 @ [spawn envDialFailed]\<rparr>"
  have "reachable sampleServer ?s1"
    by (rule after_step [OF at_start]) (rule step.accept, simp add: initial_def)
  then have "reachable sampleServer ?s2"
    by (rule after_step) (rule step.send, simp_all add: initial_def sampleServer_def)
  then have "reachable sampleServer ?s3"
    by (rule after_step) (rule step.go, simp)
  moreover have "?s3 = sampleSystem"
    by (simp add: initial_def sampleSystem_def)
  ultimately show ?thesis by simp
qed

section \<open>The claims\<close>

text \<open>
  Claim C1. The channel \<^verbatim>\<open>sem\<close> is created with capacity \<^verbatim>\<open>maxConnectionCount\<close>, and in every
  state that the server can reach the number of goroutines for which \<^verbatim>\<open>startHandler\<close> has
  sent on \<^verbatim>\<open>sem\<close> and that have not yet received from it is at most that capacity: together
  with the goroutine about to start they are covered by the values in the channel, which
  never exceed its capacity. (\<^verbatim>\<open>New\<close> returns only for a count that is not negative; limits
  of memory are not part of the model.)
\<close>

theorem admission_bound:
  assumes "New nm p m = Return srv" and "reachable srv s"
  shows "int (semCap srv) = m \<and> maxConnectionCount srv = m \<and>
         active s + pending s \<le> sem s \<and> sem s \<le> semCap srv \<and>
         int (active s) \<le> maxConnectionCount srv"
proof -
  from assms(1) have "0 \<le> m"
    and "srv = \<lparr>name = nm, port = p, maxConnectionCount = m, semCap = nat m\<rparr>"
    by (auto simp: New_def split: if_splits)
  then have "int (semCap srv) = m" "maxConnectionCount srv = m" by simp_all
  moreover from reachable_admitted [OF assms(2)]
  have "active s + pending s \<le> sem s" "sem s \<le> semCap srv"
    by (simp_all add: admitted_def)
  ultimately show ?thesis by auto
qed

text \<open>
  At a server for two connections, after one connection was accepted, admitted and its
  goroutine started.
\<close>

theorem admission_bound_witness:
  "New ''proxy'' 1080 2 = Return sampleServer \<and> reachable sampleServer sampleSystem \<and>
   int (semCap sampleServer) = 2 \<and> maxConnectionCount sampleServer = 2 \<and>
   active sampleSystem = 1 \<and> sem sampleSystem = 1 \<and>
   active sampleSystem + pending sampleSystem \<le> sem sampleSystem \<and>
   sem sampleSystem \<le> semCap sampleServer \<and>
   int (active sampleSystem) \<le> maxConnectionCount sampleServer"
proof -
  have n: "New ''proxy'' 1080 2 = Return sampleServer"
    by (simp add: New_def sampleServer_def)
  have "active sampleSystem = 1" "sem sampleSystem = 1"
    by (simp_all add: active_def sampleSystem_def spawn_def)
  then show ?thesis
    using admission_bound [OF n sample_reachable] n sample_reachable by simp
qed

text \<open>
  Claim C2. Every run of \<^verbatim>\<open>handleRequest\<close> that reaches one of its return statements (the
  greeting read failed, the connect request could not be read or decoded, the resolution
  or the dial failed, the address type is not supported, the relay failed, the relay
  returned) returns, and receives from \<^verbatim>\<open>sem\<close> exactly once. The runs left out are those in
  which an index expression panics.
\<close>

theorem release_exactly_once:
  "exitPath ev \<noteq> Panicked \<Longrightarrow>
     fst (handleRequest ev) = Return None \<and> releases (trace (snd (handleRequest ev))) = 1"
  by (simp add: run_outcome run_releases)

theorem release_exactly_once_witness:
  "exitPath envUnsupported \<noteq> Panicked \<and> fst (handleRequest envUnsupported) = Return None \<and>
   releases (trace (snd (handleRequest envUnsupported))) = 1"
  using release_exactly_once [of envUnsupported] by (simp add: sample_paths)

text \<open>
  Claim C3. When the greeting read succeeds, the first three operations on the client
  connection are the greeting read, the write of exactly \<open>0x05 0x00\<close>, and the read of
  the connect request: the method-selection reply is written before any byte of the
  connect request is read.
\<close>

theorem method_selection_before_connect_read:
  "snd (greeting ev) = None \<Longrightarrow>
     take 3 (clientIO (trace (snd (handleRequest ev)))) =
       [ReqRead 20, ConnWrite [0x05, 0x00], ReqRead 200]"
  by (rule run_clientIO)

theorem method_selection_before_connect_read_witness:
  "snd (greeting envRelayed) = None \<and>
   take 3 (clientIO (trace (snd (handleRequest envRelayed)))) =
     [ReqRead 20, ConnWrite [0x05, 0x00], ReqRead 200]"
  using method_selection_before_connect_read [of envRelayed] by (simp add: sample_defs)

text \<open>
  Claim C4. For a decoded connect request with address type \<open>0x01\<close>, address bytes
  \<open>127 0 0 1\<close> and any port \<open>p\<close>, \<^verbatim>\<open>handleConnectRequest\<close> performs exactly one network
  operation, the dial of \<open>tcp\<close> to \<open>127.0.0.1:p\<close> (which reads \<open>127.0.0.1:8080\<close> for port
  8080); when the dial succeeds it returns nil and writes to the client exactly
  \<open>05 00 00 01 7F 00 00 01 00 50\<close>, whatever the port.
\<close>

theorem ipv4_dial_and_success_reply:
  assumes "snd (connectBytes ev) = None"
    and "GetSocketRequestDeserialized ev (connectData ev) =
           Inr \<lparr>atype = 0x01, destaddr = [127, 0, 0, 1], destport = p\<rparr>"
  shows "netEvents (trace (snd (handleConnectRequest ev w))) =
           netEvents (trace w) @ [Dial ''tcp'' (''127.0.0.1:'' @ fmt_d p)] \<and>
         ''127.0.0.1:'' @ fmt_d 8080 = ''127.0.0.1:8080'' \<and>
         (dial ev ''tcp'' (''127.0.0.1:'' @ fmt_d p) = Inr oc \<longrightarrow>
            fst (handleConnectRequest ev w) = Return None \<and>
            clientWrites (trace (snd (handleConnectRequest ev w))) =
              clientWrites (trace w) @ [[0x05, 0x00, 0x00, 0x01, 127, 0, 0, 1, 0x00, 0x50]])"
  using assms
  by (simp add: handleConnectRequest_def sendSuccess_def readInto_def Let_def connectData_def
        dottedQuad_localhost fmt_d_8080 split: sum.splits)

theorem ipv4_dial_and_success_reply_witness:
  "snd (connectBytes envRelayed) = None \<and>
   GetSocketRequestDeserialized envRelayed (connectData envRelayed) =
     Inr \<lparr>atype = 0x01, destaddr = [127, 0, 0, 1], destport = 8080\<rparr> \<and>
   dial envRelayed ''tcp'' ''127.0.0.1:8080'' = Inr 1 \<and>
   netEvents (trace (snd (handleConnectRequest envRelayed \<lparr>request = NewRequest, trace = []\<rparr>))) =
     [Dial ''tcp'' ''127.0.0.1:8080''] \<and>
   fst (handleConnectRequest envRelayed \<lparr>request = NewRequest, trace = []\<rparr>) = Return None \<and>
   clientWrites (trace (snd (handleConnectRequest envRelayed \<lparr>request = NewRequest, trace = []\<rparr>))) =
     [[0x05, 0x00, 0x00, 0x01, 127, 0, 0, 1, 0x00, 0x50]]"
  using ipv4_dial_and_success_reply
          [of envRelayed 8080 "\<lparr>request = NewRequest, trace = []\<rparr>" 1] sample_parsed(1)
  by (simp add: fmt_d_8080 ipv4Request_def) (simp add: sample_defs)

text \<open>
  Claim C5. For a decoded connect request whose address type is none of \<open>0x01\<close>, \<open>0x03\<close>,
  \<open>0x04\<close>, \<^verbatim>\<open>handleConnectRequest\<close> performs no look-up and no dial, writes to the client
  the connect-error reply with status \<open>0x08\<close> (\<open>05 08 00\<close>, the address bytes,
  \<open>01 BB\<close>), puts the request into state \<open>ERROR\<close>, and returns an error to its caller.
\<close>

theorem unsupported_address_type:
  assumes "snd (connectBytes ev) = None"
    and "GetSocketRequestDeserialized ev (connectData ev) = Inr c"
    and "atype c \<notin> {0x01, 0x03, 0x04}"
  shows "fst (handleConnectRequest ev w) = Return (Some (Error ''Unsupported connection type'')) \<and>
         netEvents (trace (snd (handleConnectRequest ev w))) = netEvents (trace w) \<and>
         clientWrites (trace (snd (handleConnectRequest ev w))) =
           clientWrites (trace w) @ [[0x05, 0x08, 0x00] @ destaddr c @ [0x01, 0xBB]] \<and>
         state (request (snd (handleConnectRequest ev w))) = ERROR"
  using assms
  by (simp add: handleConnectRequest_def sendSocksConnectError_def readInto_def Let_def
        connectData_def)

theorem unsupported_address_type_witness:
  "snd (connectBytes envUnsupported) = None \<and>
   GetSocketRequestDeserialized envUnsupported (connectData envUnsupported) = Inr otherRequest \<and>
   atype otherRequest \<notin> {0x01, 0x03, 0x04} \<and>
   fst (handleConnectRequest envUnsupported \<lparr>request = NewRequest, trace = []\<rparr>) =
     Return (Some (Error ''Unsupported connection type'')) \<and>
   netEvents (trace (snd (handleConnectRequest envUnsupported \<lparr>request = NewRequest, trace = []\<rparr>))) = [] \<and>
   clientWrites (trace (snd (handleConnectRequest envUnsupported \<lparr>request = NewRequest, trace = []\<rparr>))) =
     [[0x05, 0x08, 0x00, 10, 0, 0, 7, 0x01, 0xBB]] \<and>
   state (request (snd (handleConnectRequest envUnsupported \<lparr>request = NewRequest, trace = []\<rparr>))) = ERROR"
  using unsupported_address_type
          [of envUnsupported otherRequest "\<lparr>request = NewRequest, trace = []\<rparr>"] sample_parsed(3)
  by (simp add: otherRequest_def) (simp add: sample_defs)

text \<open>
  Claim C8. When the greeting read succeeds and the first byte of the greeting is not
  \<open>0x05\<close>, \<^verbatim>\<open>handleInitial\<close> logs the version mismatch at error level, still returns nil
  and puts the request into state \<open>INITIALIZING\<close>, and \<^verbatim>\<open>handleRequest\<close> goes on to write
  the method-selection reply.
\<close>

theorem version_mismatch_tolerated:
  assumes "snd (greeting ev) = None" and "fst (greeting ev) = b # bs" and "b \<noteq> 0x05"
  shows "fst (handleInitial ev w) = None \<and>
         state (request (snd (handleInitial ev w))) = INITIALIZING \<and>
         Log LogError ''Version mismatch'' \<in> set (trace (snd (handleInitial ev w))) \<and>
         take 2 (clientIO (trace (snd (handleRequest ev)))) = [ReqRead 20, ConnWrite [0x05, 0x00]]"
proof -
  have "Log LogError ''Version mismatch'' \<in> set (trace (snd (handleInitial ev w)))"
    using assms by (simp add: handleInitial_def readInto_def Let_def logBytes_trace)
  moreover have "take 2 (take 3 (clientIO (trace (snd (handleRequest ev))))) =
      [ReqRead 20, ConnWrite [0x05, 0x00]]"
    using run_clientIO [OF assms(1)] by simp
  then have "take 2 (clientIO (trace (snd (handleRequest ev)))) =
      [ReqRead 20, ConnWrite [0x05, 0x00]]"
    by simp
  ultimately show ?thesis using assms(1) by simp
qed

theorem version_mismatch_tolerated_witness:
  "snd (greeting envOldVersion) = None \<and> fst (greeting envOldVersion) = [0x04, 0x01, 0x00] \<and>
   (0x04 :: byte) \<noteq> 0x05 \<and>
   fst (handleInitial envOldVersion \<lparr>request = NewRequest, trace = []\<rparr>) = None \<and>
   state (request (snd (handleInitial envOldVersion \<lparr>request = NewRequest, trace = []\<rparr>))) =
     INITIALIZING \<and>
   Log LogError ''Version mismatch''
     \<in> set (trace (snd (handleInitial envOldVersion \<lparr>request = NewRequest, trace = []\<rparr>))) \<and>
   take 2 (clientIO (trace (snd (handleRequest envOldVersion)))) =
     [ReqRead 20, ConnWrite [0x05, 0x00]]"
  using version_mismatch_tolerated
          [of envOldVersion "0x04" "[0x01, 0x00]" "\<lparr>request = NewRequest, trace = []\<rparr>"]
  by (simp add: sample_defs)

text \<open>
  Claim C10. \<^verbatim>\<open>handleRequest\<close> never returns an error: a run that does not panic returns
  nil. When a stage failed (every return but the one after a relay without error), the
  failure shows only in the request, left in state \<open>ERROR\<close>, and in the error reply, the
  last bytes written to the client.
\<close>

theorem handleRequest_returns_nil:
  "fst (handleRequest ev) = (if exitPath ev = Panicked then Panic else Return None) \<and>
   (exitPath ev \<noteq> Panicked \<and> exitPath ev \<noteq> Relayed \<longrightarrow>
      state (request (snd (handleRequest ev))) = ERROR \<and>
      last (clientWrites (trace (snd (handleRequest ev)))) = [0x05, 0x01])"
proof -
  have "last (clientWrites (trace (snd (handleRequest ev)))) = [0x05, 0x01]"
    if "exitPath ev \<noteq> Panicked" "exitPath ev \<noteq> Relayed"
  proof (cases "exitPath ev")
    case UnsupportedType
    with parsed_paths [of ev] run_writes_parsed(1) [of ev] show ?thesis by auto
  next
    case RelayFailed
    with parsed_paths [of ev] run_writes_parsed(2) [of ev] show ?thesis by auto
  qed (use that run_writes [of ev] in simp_all)
  then show ?thesis by (simp add: run_outcome run_state)
qed

theorem handleRequest_returns_nil_witness:
  "fst (handleRequest envDialFailed) = Return None \<and>
   state (request (snd (handleRequest envDialFailed))) = ERROR \<and>
   last (clientWrites (trace (snd (handleRequest envDialFailed)))) = [0x05, 0x01]"
  using handleRequest_returns_nil [of envDialFailed] by (simp add: sample_paths)

text \<open>
  Claim C6. For a connect request with address type \<open>0x03\<close> the resolution comes before
  any dial, and after a failed resolution nothing is dialled; the claim has the client
  receive a connect-error reply with the generic status. At the request for
  \<open>example.com\<close> whose resolution fails, the look-up is the only network operation, but
  the client is sent the method selection and then the two bytes \<open>05 01\<close> of
  \<^verbatim>\<open>sendSocksError\<close>: neither the connect-error reply with status \<open>0x01\<close> for that address
  nor any buffer of that layout is written.
\<close>

theorem resolution_failure_reply:
  "atype domainRequest = 0x03 \<and>
   GetSocketRequestDeserialized envResolutionFailed (connectData envResolutionFailed) =
     Inr domainRequest \<and>
   lookupHost envResolutionFailed ''example.com'' = Inl (Error ''no such host'') \<and>
   netEvents (trace (snd (handleRequest envResolutionFailed))) = [LookupHost ''example.com''] \<and>
   clientWrites (trace (snd (handleRequest envResolutionFailed))) = [[0x05, 0x00], [0x05, 0x01]] \<and>
   connectErrorReply 0x01 (destaddr domainRequest)
     \<notin> set (clientWrites (trace (snd (handleRequest envResolutionFailed)))) \<and>
   \<not> list_ex isConnectErrorReply (clientWrites (trace (snd (handleRequest envResolutionFailed))))"
proof -
  have g: "snd (greeting envResolutionFailed) = None" "snd (connectBytes envResolutionFailed) = None"
    by (simp_all add: sample_defs)
  have a: "atype domainRequest = 0x03" by (simp add: domainRequest_def)
  have n: "string_of_bytes (destaddr domainRequest) = ''example.com''"
    by (simp add: domainRequest_def example_com)
  have l: "lookupHost envResolutionFailed ''example.com'' = Inl (Error ''no such host'')"
    by (simp add: sample_defs)
  show ?thesis
    using run_lookup(2) [OF g sample_parsed(4) a, of "Error ''no such host''"]
      run_writes(2) [of envResolutionFailed] sample_paths(4) sample_parsed(4) a l
    by (simp add: n short_not_connect_error connectErrorReply_def)
qed

text \<open>
  Claim C7. The claim gives the error reply after a malformed connect request, a failed
  resolution or a failed dial the connect-error layout (\<open>05\<close>, status, \<open>00\<close>, the address
  bytes, \<open>01 BB\<close>). At the request for \<open>127.0.0.1:8080\<close> whose dial is refused, the only
  reply after the method selection is \<open>05 01\<close>, and no buffer written to the client has
  the connect-error layout; the same holds at a connect request that cannot be decoded.
\<close>

theorem connect_failure_reply:
  "exitPath envDialFailed = DialFailed \<and>
   replies (trace (snd (handleRequest envDialFailed))) = [[0x05, 0x01]] \<and>
   connectErrorReply 0x01 (destaddr ipv4Request)
     \<notin> set (clientWrites (trace (snd (handleRequest envDialFailed)))) \<and>
   \<not> list_ex isConnectErrorReply (clientWrites (trace (snd (handleRequest envDialFailed)))) \<and>
   exitPath envMalformed = Malformed \<and>
   replies (trace (snd (handleRequest envMalformed))) = [[0x05, 0x01]] \<and>
   \<not> list_ex isConnectErrorReply (clientWrites (trace (snd (handleRequest envMalformed))))"
  using run_writes(2) [of envDialFailed] run_replies [of envDialFailed]
    run_writes(2) [of envMalformed] run_replies [of envMalformed] sample_paths(3,7)
  by (simp add: short_not_connect_error connectErrorReply_def)

text \<open>
  What holds in general after a connect request that cannot be decoded, a failed
  resolution or a failed dial: the client is sent the method selection and the two bytes
  \<open>05 01\<close>, and the request ends in state \<open>ERROR\<close>.
\<close>

lemma connect_failure_two_bytes:
  assumes "exitPath ev = Malformed \<or> exitPath ev = ResolutionFailed \<or> exitPath ev = DialFailed"
  shows "clientWrites (trace (snd (handleRequest ev))) = [[0x05, 0x00], [0x05, 0x01]] \<and>
         replies (trace (snd (handleRequest ev))) = [[0x05, 0x01]] \<and>
         state (request (snd (handleRequest ev))) = ERROR"
  using assms run_writes(2) [of ev] run_replies [of ev] run_state [of ev] by auto

text \<open>
  The part of C6 that holds for every input: with address type \<open>0x03\<close> the first network
  operation is the look-up of the name, and it is the only one when the look-up fails.
\<close>

lemma resolution_before_dial:
  assumes "snd (greeting ev) = None" and "snd (connectBytes ev) = None"
    and "GetSocketRequestDeserialized ev (connectData ev) = Inr c" and "atype c = 0x03"
  shows "take 1 (netEvents (trace (snd (handleRequest ev)))) =
           [LookupHost (string_of_bytes (destaddr c))] \<and>
         (lookupHost ev (string_of_bytes (destaddr c)) = Inl e \<longrightarrow>
            netEvents (trace (snd (handleRequest ev))) =
              [LookupHost (string_of_bytes (destaddr c))])"
  using run_lookup(1,2) [OF assms] by simp

text \<open>
  Claim C9, as amended. In every run that neither takes the branch for an unsupported
  address type nor panics, the replies that follow the method selection are one error
  reply alone, or the success reply alone (the relay returned nil), or the success reply
  followed by one error reply (the relay returned an error); there is never more than one
  error reply.
\<close>

theorem reply_outcomes:
  assumes "exitPath ev \<noteq> UnsupportedType" and "exitPath ev \<noteq> Panicked"
  shows "((\<exists>r. isErrorReply r \<and> replies (trace (snd (handleRequest ev))) = [r]) \<or>
          (\<exists>c. GetSocketRequestDeserialized ev (connectData ev) = Inr c \<and>
               exitPath ev = Relayed \<and>
               replies (trace (snd (handleRequest ev))) = [successReply c]) \<or>
          (\<exists>c r. GetSocketRequestDeserialized ev (connectData ev) = Inr c \<and>
               exitPath ev = RelayFailed \<and> isErrorReply r \<and>
               replies (trace (snd (handleRequest ev))) = [successReply c, r])) \<and>
         length (filter isErrorReply (replies (trace (snd (handleRequest ev))))) \<le> 1"
proof (cases "exitPath ev = Relayed \<or> exitPath ev = RelayFailed")
  case True
  with parsed_paths [of ev]
  obtain c where c: "GetSocketRequestDeserialized ev (connectData ev) = Inr c"
    by auto
  have e: "isErrorReply [0x05, 0x01]" by (simp add: isErrorReply_def)
  from True show ?thesis
  proof
    assume "exitPath ev = Relayed"
    then show ?thesis
      using run_replies_parsed(3) [OF c] c by (simp add: successReply_not_error)
  next
    assume "exitPath ev = RelayFailed"
    then show ?thesis
      using run_replies_parsed(2) [OF c] c e by (simp add: successReply_not_error)
  qed
next
  case False
  with assms have "exitPath ev = GreetingFailed \<or> exitPath ev = ConnectReadFailed \<or>
      exitPath ev = Malformed \<or> exitPath ev = ResolutionFailed \<or> exitPath ev = DialFailed"
    by (cases "exitPath ev") simp_all
  then show ?thesis using run_replies [of ev] by (simp add: isErrorReply_def)
qed

text \<open>At the request for \<open>127.0.0.1:8080\<close> whose relay fails.\<close>

theorem reply_outcomes_witness:
  "exitPath envRelayFailed \<noteq> UnsupportedType \<and> exitPath envRelayFailed \<noteq> Panicked \<and>
   replies (trace (snd (handleRequest envRelayFailed))) = [successReply ipv4Request, [0x05, 0x01]] \<and>
   length (filter isErrorReply (replies (trace (snd (handleRequest envRelayFailed))))) \<le> 1"
  using reply_outcomes [of envRelayFailed] run_replies_parsed(2) [OF sample_parsed(2)]
    sample_paths(2)
  by simp

text \<open>
  The claim as it is worded fails at that input: the client is sent the success reply and
  then an error reply, which is none of the three outcomes.
\<close>

theorem relay_failure_outcome:
  "exitPath envRelayFailed = RelayFailed \<and>
   replies (trace (snd (handleRequest envRelayFailed))) =
     [[0x05, 0x00, 0x00, 0x01, 127, 0, 0, 1, 0x00, 0x50], [0x05, 0x01]] \<and>
   isSuccessReply [0x05, 0x00, 0x00, 0x01, 127, 0, 0, 1, 0x00, 0x50] \<and>
   isErrorReply [0x05, 0x01] \<and>
   \<not> claimedOutcome (replies (trace (snd (handleRequest envRelayFailed))))"
  using run_replies_parsed(2) [OF sample_parsed(2)] sample_paths(2)
  by (simp add: successReply_def ipv4Request_def claimedOutcome_def isSuccessReply_def
        isErrorReply_def)

text \<open>
  The branch for an unsupported address type, which the amended claim leaves out:
  \<^verbatim>\<open>handleConnectRequest\<close> writes the connect-error reply and returns an error, upon which
  \<^verbatim>\<open>handleRequest\<close> writes the two-byte error reply as well.
\<close>

theorem unsupported_type_two_error_replies:
  "exitPath envUnsupported = UnsupportedType \<and>
   replies (trace (snd (handleRequest envUnsupported))) =
     [[0x05, 0x08, 0x00, 10, 0, 0, 7, 0x01, 0xBB], [0x05, 0x01]] \<and>
   length (filter isErrorReply (replies (trace (snd (handleRequest envUnsupported))))) = 2"
  using run_replies_parsed(1) [OF sample_parsed(3)] sample_paths(5)
  by (simp add: connectErrorReply_def otherRequest_def isErrorReply_def isConnectErrorReply_def)

end
